theory Spec2Isabelle
  imports Complex_Main
begin

section \<open>Matchmaking and relay core of server.js\<close>

text \<open>
  The development embeds the WebSocket part of \<^verbatim>\<open>src/server.js\<close>: the three
  process-wide maps \<^verbatim>\<open>clients\<close>, \<^verbatim>\<open>waitingByTier\<close> and \<^verbatim>\<open>rooms\<close>, the
  functions \<^verbatim>\<open>send\<close> and \<^verbatim>\<open>cleanup\<close>, and the \<^verbatim>\<open>connection\<close>, \<^verbatim>\<open>message\<close>,
  \<^verbatim>\<open>close\<close> and \<^verbatim>\<open>error\<close> listeners. The HTTP file server is not part of it.
\<close>

subsection \<open>JavaScript values\<close>

text \<open>
  A socket object is an opaque handle; \<^verbatim>\<open>===\<close> on sockets is equality of handles.
\<close>

type_synonym ws = nat

text \<open>
  JavaScript numbers. The finite doubles are read as the rationals they denote, with
  \<open>-0\<close> and \<open>+0\<close> identified: \<^verbatim>\<open>Map\<close> compares keys by SameValueZero, truthiness
  treats both as false, so nothing in the server tells them apart. Under SameValueZero
  \<^verbatim>\<open>NaN\<close> is equal to itself, as the constructor is under HOL equality.
\<close>

datatype jsnum = NaN | PosInf | NegInf | Fin rat

text \<open>
  The value \<^verbatim>\<open>JSON.parse\<close> returns. An object is the list of its own properties (a
  parsed object has each key once); \<^verbatim>\<open>undefined\<close> is the absence of a value and is
  written \<open>None\<close> where a property is read.
\<close>

datatype json =
    JNull
  | JBool bool
  | JNum jsnum
  | JStr string
  | JArr "json list"
  | JObj "(string \<times> json) list"

datatype error = TypeError

text \<open>
  The two conversions of the language whose results depend on the decimal notation of
  doubles are parameters of the model: \<^verbatim>\<open>StringToNumber\<close> (what \<^verbatim>\<open>Number\<close> gives for
  a string) and \<^verbatim>\<open>Number::toString\<close>.
\<close>

record builtins =
  StringToNumber :: "string \<Rightarrow> jsnum"
  NumberToString :: "jsnum \<Rightarrow> string"

text \<open>ToBoolean.\<close>

fun truthy :: "json \<Rightarrow> bool" where
  "truthy JNull = False"
| "truthy (JBool b) = b"
| "truthy (JNum n) = (n \<noteq> NaN \<and> n \<noteq> Fin 0)"
| "truthy (JStr s) = (s \<noteq> [])"
| "truthy (JArr xs) = True"
| "truthy (JObj kvs) = True"

text \<open>\<^verbatim>\<open>v || d\<close> where \<^verbatim>\<open>v\<close> is a property read that may be \<^verbatim>\<open>undefined\<close>.\<close>

definition orElse :: "json option \<Rightarrow> json \<Rightarrow> json" where
  "orElse v d = (case v of None \<Rightarrow> d | Some x \<Rightarrow> if truthy x then x else d)"

text \<open>
  \<^verbatim>\<open>msg.k\<close> for a value that is not \<^verbatim>\<open>null\<close> and a key \<^verbatim>\<open>k\<close> among \<^verbatim>\<open>type\<close>,
  \<^verbatim>\<open>tier\<close>, \<^verbatim>\<open>tankName\<close>, \<^verbatim>\<open>payload\<close>: no prototype defines one of these, so only an
  object's own property answers.
\<close>

fun field :: "json \<Rightarrow> string \<Rightarrow> json option" where
  "field (JObj kvs) k = map_of kvs k"
| "field _ k = None"

text \<open>
  ToString, as \<^verbatim>\<open>String(v)\<close> applies it. An array is joined with commas, \<^verbatim>\<open>null\<close>
  elements giving the empty string. A parsed object answers \<^verbatim>\<open>[object Object]\<close>
  through \<^verbatim>\<open>Object.prototype.toString\<close>, unless it has an own property \<^verbatim>\<open>toString\<close>:
  that value is not callable, \<^verbatim>\<open>valueOf\<close> gives no primitive either, and the conversion
  throws a TypeError.
\<close>

fun ToString :: "builtins \<Rightarrow> json \<Rightarrow> error + string"
  and join :: "builtins \<Rightarrow> json list \<Rightarrow> error + string" where
  "ToString bi JNull = Inr ''null''"
| "ToString bi (JBool b) = Inr (if b then ''true'' else ''false'')"
| "ToString bi (JNum n) = Inr (NumberToString bi n)"
| "ToString bi (JStr s) = Inr s"
| "ToString bi (JArr xs) = join bi xs"
| "ToString bi (JObj kvs) =
     (if map_of kvs ''toString'' \<noteq> None then Inl TypeError else Inr ''[object Object]'')"
| "join bi [] = Inr []"
| "join bi [x] = (if x = JNull then Inr [] else ToString bi x)"
| "join bi (x # y # ys) =
     (case (if x = JNull then Inr [] else ToString bi x) of
        Inl e \<Rightarrow> Inl e
      | Inr a \<Rightarrow>
          (case join bi (y # ys) of
             Inl e \<Rightarrow> Inl e
           | Inr b \<Rightarrow> Inr (a @ '','' @ b)))"

text \<open>
  ToNumber, as \<^verbatim>\<open>Number(v)\<close> applies it. An array or object goes through its string;
  the string \<^verbatim>\<open>[object Object]\<close> is no numeric literal, so an object gives \<^verbatim>\<open>NaN\<close>.
\<close>

fun ToNumber :: "builtins \<Rightarrow> json \<Rightarrow> error + jsnum" where
  "ToNumber bi JNull = Inr (Fin 0)"
| "ToNumber bi (JBool b) = Inr (if b then Fin 1 else Fin 0)"
| "ToNumber bi (JNum n) = Inr n"
| "ToNumber bi (JStr s) = Inr (StringToNumber bi s)"
| "ToNumber bi (JArr xs) =
     (case join bi xs of Inl e \<Rightarrow> Inl e | Inr s \<Rightarrow> Inr (StringToNumber bi s))"
| "ToNumber bi (JObj kvs) =
     (if map_of kvs ''toString'' \<noteq> None then Inl TypeError else Inr NaN)"

subsection \<open>Matchmaking state\<close>

text \<open>The value of \<^verbatim>\<open>clients.get(ws)\<close>; \<^verbatim>\<open>null\<close> fields are \<open>None\<close>.\<close>

record client =
  cid :: string
  tier :: "jsnum option"
  tankName :: "string option"
  roomId :: "string option"

record room =
  hostWs :: ws
  clientWs :: ws
  roomTier :: jsnum

text \<open>
  The three maps, and what the server can observe or cause on the sockets: the set of
  sockets whose \<^verbatim>\<open>readyState\<close> is \<^verbatim>\<open>OPEN\<close>, the log of \<^verbatim>\<open>ws.send\<close> calls (each
  transmitted text, given as the value it denotes, in order) and the log of
  \<^verbatim>\<open>ws.close()\<close> calls.
\<close>

record state =
  clients :: "ws \<rightharpoonup> client"
  waitingByTier :: "jsnum \<rightharpoonup> ws"
  rooms :: "string \<rightharpoonup> room"
  readyOpen :: "ws set"
  sent :: "(ws \<times> json) list"
  closeCalls :: "ws list"

definition initial :: state where
  "initial = \<lparr>clients = Map.empty, waitingByTier = Map.empty, rooms = Map.empty,
     readyOpen = {}, sent = [], closeCalls = []\<rparr>"

text \<open>
  \<^verbatim>\<open>JSON.stringify(obj)\<close> for a value built from parsed values and strings, up to the
  notation of the text: the result is the value the text denotes, which is what the
  peer's \<^verbatim>\<open>JSON.parse\<close> gives back. The serialisation writes \<^verbatim>\<open>NaN\<close> and the
  infinities as \<^verbatim>\<open>null\<close>, at the top and inside arrays and objects, and keeps everything
  else: no parsed value is callable, so no \<^verbatim>\<open>toJSON\<close> is applied and no property is left
  out.
\<close>

fun stringify :: "json \<Rightarrow> json" where
  "stringify (JNum n) = (case n of Fin q \<Rightarrow> JNum (Fin q) | _ \<Rightarrow> JNull)"
| "stringify (JArr xs) = JArr (map stringify xs)"
| "stringify (JObj kvs) = JObj (map (\<lambda>kv. (fst kv, stringify (snd kv))) kvs)"
| "stringify v = v"

text \<open>\<^verbatim>\<open>if (ws && ws.readyState === WebSocket.OPEN) ws.send(JSON.stringify(obj))\<close>.\<close>

definition send :: "state \<Rightarrow> ws \<Rightarrow> json \<Rightarrow> state" where
  "send s w obj =
     (if w \<in> readyOpen s then s\<lparr>sent := sent s @ [(w, stringify obj)]\<rparr> else s)"

text \<open>\<^verbatim>\<open>other.close()\<close>: afterwards the socket's state is no longer \<^verbatim>\<open>OPEN\<close>.\<close>

definition closeWs :: "state \<Rightarrow> ws \<Rightarrow> state" where
  "closeWs s w = s\<lparr>readyOpen := readyOpen s - {w}, closeCalls := closeCalls s @ [w]\<rparr>"

definition infoMsg :: "string \<Rightarrow> json" where
  "infoMsg t = JObj [(''type'', JStr ''info''), (''text'', JStr t)]"

definition cleanup :: "state \<Rightarrow> ws \<Rightarrow> state" where
  "cleanup s w =
     (case clients s w of
        None \<Rightarrow> s
      | Some c \<Rightarrow>
          let s1 = (case tier c of
                      None \<Rightarrow> s
                    | Some t \<Rightarrow>
                        if waitingByTier s t = Some w
                        then s\<lparr>waitingByTier := (waitingByTier s)(t := None)\<rparr>
                        else s);
              s2 = (case roomId c of
                      None \<Rightarrow> s1
                    | Some rid \<Rightarrow>
                        if rid = [] then s1
                        else (case rooms s1 rid of
                                None \<Rightarrow> s1
                              | Some r \<Rightarrow>
                                  let other = (if hostWs r = w then clientWs r else hostWs r);
                                      s' = send s1 other (infoMsg ''Opponent disconnected.'');
                                      s'' = closeWs s' other
                                  in s''\<lparr>rooms := (rooms s'')(rid := None)\<rparr>))
          in s2\<lparr>clients := (clients s2)(w := None)\<rparr>)"

subsection \<open>The connection listener\<close>

text \<open>The identity \<^verbatim>\<open>uid()\<close> returns is an argument: it is random in the source.\<close>

definition onConnection :: "state \<Rightarrow> ws \<Rightarrow> string \<Rightarrow> state" where
  "onConnection s w i =
     send (s\<lparr>clients := (clients s)(w \<mapsto> \<lparr>cid = i, tier = None, tankName = None, roomId = None\<rparr>)\<rparr>)
       w (JObj [(''type'', JStr ''welcome''), (''id'', JStr i)])"

subsection \<open>The message listener\<close>

definition matchedMsg :: "string \<Rightarrow> string \<Rightarrow> string \<Rightarrow> json" where
  "matchedMsg rid h p =
     JObj [(''type'', JStr ''matched''), (''roomId'', JStr rid), (''hostId'', JStr h), (''peerId'', JStr p)]"

definition hostStartMsg :: json where
  "hostStartMsg = JObj [(''type'', JStr ''hostStart'')]"

text \<open>The text of the client's notice ends in U+2026, three bytes in UTF-8.\<close>

definition waitingForHost :: string where
  "waitingForHost = ''Waiting for host to start'' @ [CHR 0xE2, CHR 0x80, CHR 0xA6]"

text \<open>
  The branch \<^verbatim>\<open>msg.type === "join"\<close>. \<open>rid\<close> is what \<^verbatim>\<open>uid()\<close> returns if the branch
  calls it. A TypeError thrown by \<^verbatim>\<open>Number\<close> or \<^verbatim>\<open>String\<close> leaves the listener
  uncaught.
\<close>

definition onJoin :: "builtins \<Rightarrow> state \<Rightarrow> ws \<Rightarrow> client \<Rightarrow> json \<Rightarrow> string \<Rightarrow> error + state" where
  "onJoin bi s w c msg rid =
     (case ToNumber bi (orElse (field msg ''tier'') (JNum (Fin 1))) of
        Inl e \<Rightarrow> Inl e
      | Inr t \<Rightarrow>
     (case ToString bi (orElse (field msg ''tankName'') (JStr ''Tank'')) of
        Inl e \<Rightarrow> Inl e
      | Inr nm \<Rightarrow>
          let c' = c\<lparr>tier := Some t, tankName := Some nm\<rparr>;
              s1 = s\<lparr>clients := (clients s)(w \<mapsto> c')\<rparr>;
              waiting = waitingByTier s1 t
          in if (case waiting of None \<Rightarrow> False
                 | Some h \<Rightarrow> h \<noteq> w \<and> clients s1 h \<noteq> None)
             then
               let s2 = s1\<lparr>waitingByTier := (waitingByTier s1)(t := None)\<rparr>;
                   hostWs = the waiting;
                   clientWs = w;
                   host = the (clients s2 hostWs);
                   client = the (clients s2 clientWs);
                   s3 = s2\<lparr>clients := (clients s2)
                          (hostWs \<mapsto> host\<lparr>roomId := Some rid\<rparr>,
                           clientWs \<mapsto> client\<lparr>roomId := Some rid\<rparr>)\<rparr>;
                   s4 = s3\<lparr>rooms := (rooms s3)
                          (rid \<mapsto> \<lparr>hostWs = hostWs, clientWs = clientWs, roomTier = t\<rparr>)\<rparr>;
                   s5 = send s4 hostWs (matchedMsg rid (cid host) (cid client));
                   s6 = send s5 clientWs (matchedMsg rid (cid host) (cid host));
                   s7 = send s6 hostWs hostStartMsg
               in Inr (send s7 clientWs (infoMsg waitingForHost))
             else
               Inr (send (s1\<lparr>waitingByTier := (waitingByTier s1)(t \<mapsto> w)\<rparr>) w
                      (infoMsg ''Searching for opponent (same tier)...''))))"

text \<open>\<^verbatim>\<open>!c.roomId\<close>: the reference is \<^verbatim>\<open>null\<close> or the empty string.\<close>

definition noRoomId :: "client \<Rightarrow> bool" where
  "noRoomId c = (case roomId c of None \<Rightarrow> True | Some rid \<Rightarrow> rid = [])"

text \<open>\<^verbatim>\<open>{ type: ty, payload: msg.payload || {} }\<close>.\<close>

definition relayMsg :: "json \<Rightarrow> json \<Rightarrow> json" where
  "relayMsg ty msg = JObj [(''type'', ty), (''payload'', orElse (field msg ''payload'') (JObj []))]"

text \<open>The branch \<^verbatim>\<open>msg.type === "input"\<close>.\<close>

definition onInput :: "state \<Rightarrow> ws \<Rightarrow> client \<Rightarrow> json \<Rightarrow> state" where
  "onInput s w c msg =
     (if noRoomId c then s
      else (case rooms s (the (roomId c)) of
              None \<Rightarrow> s
            | Some r \<Rightarrow>
                if hostWs r \<noteq> w then send s (hostWs r) (relayMsg (JStr ''input'') msg) else s))"

text \<open>
  The branch for \<^verbatim>\<open>init\<close> and \<^verbatim>\<open>snapshot\<close>; it is entered only when \<^verbatim>\<open>msg.type\<close> is one
  of the two strings, and the outgoing type is \<^verbatim>\<open>msg.type\<close>.
\<close>

definition onState :: "state \<Rightarrow> ws \<Rightarrow> client \<Rightarrow> json \<Rightarrow> state" where
  "onState s w c msg =
     (if noRoomId c then s
      else (case rooms s (the (roomId c)) of
              None \<Rightarrow> s
            | Some r \<Rightarrow>
                if hostWs r = w then send s (clientWs r) (relayMsg (the (field msg ''type'')) msg)
                else s))"

text \<open>
  The listener. \<open>raw\<close> is the outcome of \<^verbatim>\<open>JSON.parse\<close>, \<open>None\<close> when it throws. Reading
  \<^verbatim>\<open>msg.type\<close> of \<^verbatim>\<open>null\<close> throws a TypeError outside the \<^verbatim>\<open>try\<close>.
\<close>

definition onMessage :: "builtins \<Rightarrow> state \<Rightarrow> ws \<Rightarrow> json option \<Rightarrow> string \<Rightarrow> error + state" where
  "onMessage bi s w raw rid =
     (case raw of
        None \<Rightarrow> Inr s
      | Some msg \<Rightarrow>
          (case clients s w of
             None \<Rightarrow> Inr s
           | Some c \<Rightarrow>
               if msg = JNull then Inl TypeError
               else if field msg ''type'' = Some (JStr ''join'') then onJoin bi s w c msg rid
               else if field msg ''type'' = Some (JStr ''input'') then Inr (onInput s w c msg)
               else if field msg ''type'' = Some (JStr ''init'')
                     \<or> field msg ''type'' = Some (JStr ''snapshot'') then Inr (onState s w c msg)
               else Inr s))"

subsection \<open>Runs of the server\<close>

text \<open>
  One event of the single-threaded dispatch. A socket handed to the \<^verbatim>\<open>connection\<close>
  listener is open; \<^verbatim>\<open>close\<close> and \<^verbatim>\<open>error\<close> both call \<^verbatim>\<open>cleanup\<close> on a socket that
  is no longer open; \<open>Drop\<close> is the socket leaving the open state before its \<^verbatim>\<open>close\<close>
  event is dispatched. An uncaught TypeError ends the run.
\<close>

datatype event =
    Connection ws string
  | Message ws "json option" string
  | Close ws
  | Drop ws

fun step :: "builtins \<Rightarrow> state \<Rightarrow> event \<Rightarrow> error + state" where
  "step bi s (Connection w i) = Inr (onConnection (s\<lparr>readyOpen := insert w (readyOpen s)\<rparr>) w i)"
| "step bi s (Message w raw rid) = onMessage bi s w raw rid"
| "step bi s (Close w) = Inr (cleanup (s\<lparr>readyOpen := readyOpen s - {w}\<rparr>) w)"
| "step bi s (Drop w) = Inr (s\<lparr>readyOpen := readyOpen s - {w}\<rparr>)"

fun run :: "builtins \<Rightarrow> state \<Rightarrow> event list \<Rightarrow> error + state" where
  "run bi s [] = Inr s"
| "run bi s (e # es) = (case step bi s e of Inl x \<Rightarrow> Inl x | Inr s' \<Rightarrow> run bi s' es)"

subsection \<open>Three states of the end-to-end scenario\<close>

text \<open>
  \<open>freshState\<close>: connections 1 and 2 are registered and have not joined.
  \<open>lobbyState\<close>: connection 1 (identity \<^verbatim>\<open>a\<close>) has joined tier 1 and waits, connection 2
  (identity \<^verbatim>\<open>b\<close>) has connected. \<open>roomState\<close>: connection 2 has joined tier 1 as well,
  and \<^verbatim>\<open>uid()\<close> gave the room the name \<^verbatim>\<open>r1\<close>. All three have an empty send log.
\<close>

text \<open>The message \<^verbatim>\<open>{"type": "join", "tier": t, "tankName": n}\<close>.\<close>

definition joinMsg :: "jsnum \<Rightarrow> string \<Rightarrow> json" where
  "joinMsg t n = JObj [(''type'', JStr ''join''), (''tier'', JNum t), (''tankName'', JStr n)]"

definition lobbyState :: state where
  "lobbyState =
     \<lparr>clients = [1 \<mapsto> \<lparr>cid = ''a'', tier = Some (Fin 1), tankName = Some ''X'', roomId = None\<rparr>,
                 2 \<mapsto> \<lparr>cid = ''b'', tier = None, tankName = None, roomId = None\<rparr>],
      waitingByTier = [Fin 1 \<mapsto> 1],
      rooms = Map.empty,
      readyOpen = {1, 2}, sent = [], closeCalls = []\<rparr>"

definition roomState :: state where
  "roomState =
     \<lparr>clients = [1 \<mapsto> \<lparr>cid = ''a'', tier = Some (Fin 1), tankName = Some ''X'', roomId = Some ''r1''\<rparr>,
                 2 \<mapsto> \<lparr>cid = ''b'', tier = Some (Fin 1), tankName = Some ''Y'', roomId = Some ''r1''\<rparr>],
      waitingByTier = Map.empty,
      rooms = [''r1'' \<mapsto> \<lparr>hostWs = 1, clientWs = 2, roomTier = Fin 1\<rparr>],
      readyOpen = {1, 2}, sent = [], closeCalls = []\<rparr>"

definition freshState :: state where
  "freshState =
     \<lparr>clients = [1 \<mapsto> \<lparr>cid = ''a'', tier = None, tankName = None, roomId = None\<rparr>,
                 2 \<mapsto> \<lparr>cid = ''b'', tier = None, tankName = None, roomId = None\<rparr>],
      waitingByTier = Map.empty,
      rooms = Map.empty,
      readyOpen = {1, 2}, sent = [], closeCalls = []\<rparr>"

subsection \<open>Vocabulary of the statements\<close>

text \<open>The messages among \<open>ms\<close> that reach an open socket.\<close>

definition delivered :: "state \<Rightarrow> (ws \<times> json) list \<Rightarrow> (ws \<times> json) list" where
  "delivered s ms = filter (\<lambda>(w, m). w \<in> readyOpen s) ms"

text \<open>A value in which every number is finite.\<close>

fun allFinite :: "json \<Rightarrow> bool" where
  "allFinite (JNum n) = (case n of Fin q \<Rightarrow> True | _ \<Rightarrow> False)"
| "allFinite (JArr xs) = (\<forall>x \<in> set xs. allFinite x)"
| "allFinite (JObj kvs) = (\<forall>kv \<in> set kvs. allFinite (snd kv))"
| "allFinite v = True"

text \<open>A value that is neither an array nor an object.\<close>

fun primitive :: "json \<Rightarrow> bool" where
  "primitive (JArr xs) = False"
| "primitive (JObj kvs) = False"
| "primitive _ = True"

text \<open>The four notices the \<^verbatim>\<open>join\<close> branch can send.\<close>

definition joinNotice :: "json \<Rightarrow> bool" where
  "joinNotice m \<longleftrightarrow>
     m = infoMsg ''Searching for opponent (same tier)...'' \<or> m = infoMsg waitingForHost
     \<or> m = hostStartMsg \<or> (\<exists>r h p. m = matchedMsg r h p)"

section \<open>Auxiliary facts\<close>

lemma stringify_notices [simp]:
  "stringify (infoMsg t) = infoMsg t"
  "stringify (matchedMsg r h p) = matchedMsg r h p"
  "stringify hostStartMsg = hostStartMsg"
  by (simp_all add: infoMsg_def matchedMsg_def hostStartMsg_def)

lemma stringify_finite: "allFinite v \<Longrightarrow> stringify v = v"
proof (induction v rule: stringify.induct)
  case (1 n)
  then show ?case by (cases n) simp_all
next
  case (2 xs)
  then show ?case by (simp add: map_idI)
next
  case (3 kvs)
  then show ?case by (simp add: map_idI)
qed simp_all

lemma send_simps [simp]:
  "clients (send s w m) = clients s"
  "waitingByTier (send s w m) = waitingByTier s"
  "rooms (send s w m) = rooms s"
  "readyOpen (send s w m) = readyOpen s"
  "closeCalls (send s w m) = closeCalls s"
  "sent (send s w m) = sent s @ delivered s [(w, stringify m)]"
  by (simp_all add: send_def delivered_def)

lemma send_eq: "send s w m = s\<lparr>sent := sent s @ delivered s [(w, stringify m)]\<rparr>"
  by (simp add: send_def delivered_def)

lemma field_not_null: "field msg k = Some v \<Longrightarrow> msg \<noteq> JNull"
  by auto

text \<open>The three states are reached from the initial one, up to the send log.\<close>

lemma scenario_fresh:
  "run bi initial [Connection 1 ''a'', Connection 2 ''b''] =
     Inr (freshState\<lparr>sent :=
       [(1, JObj [(''type'', JStr ''welcome''), (''id'', JStr ''a'')]),
        (2, JObj [(''type'', JStr ''welcome''), (''id'', JStr ''b'')])]\<rparr>)"
  by (simp add: initial_def freshState_def onConnection_def send_def insert_commute)

lemma scenario_lobby:
  "run bi initial
     [Connection 1 ''a'', Message 1 (Some (joinMsg (Fin 1) ''X'')) ''u1'', Connection 2 ''b''] =
     Inr (lobbyState\<lparr>sent :=
       [(1, JObj [(''type'', JStr ''welcome''), (''id'', JStr ''a'')]),
        (1, infoMsg ''Searching for opponent (same tier)...''),
        (2, JObj [(''type'', JStr ''welcome''), (''id'', JStr ''b'')])]\<rparr>)"
  by (simp add: initial_def lobbyState_def onConnection_def onMessage_def onJoin_def joinMsg_def
      orElse_def send_def Let_def insert_commute)

lemma scenario_room:
  "run bi initial
     [Connection 1 ''a'', Message 1 (Some (joinMsg (Fin 1) ''X'')) ''u1'', Connection 2 ''b'',
      Message 2 (Some (joinMsg (Fin 1) ''Y'')) ''r1''] =
     Inr (roomState\<lparr>sent :=
       [(1, JObj [(''type'', JStr ''welcome''), (''id'', JStr ''a'')]),
        (1, infoMsg ''Searching for opponent (same tier)...''),
        (2, JObj [(''type'', JStr ''welcome''), (''id'', JStr ''b'')]),
        (1, matchedMsg ''r1'' ''a'' ''b''), (2, matchedMsg ''r1'' ''a'' ''a''),
        (1, hostStartMsg), (2, infoMsg waitingForHost)]\<rparr>)"
  by (simp add: initial_def roomState_def onConnection_def onMessage_def onJoin_def joinMsg_def
      orElse_def send_def Let_def insert_commute)

lemma cleanup_idem: "cleanup (cleanup s w) w = cleanup s w"
proof -
  have "clients (cleanup s w) w = None"
    by (simp add: cleanup_def Let_def split: option.splits)
  then show ?thesis by (simp add: cleanup_def [of "cleanup s w"])
qed

lemma cleanup_room:
  assumes "clients s w = Some c" and "roomId c = Some rid" and "rid \<noteq> []"
    and "rooms s rid = Some r"
  shows "cleanup s w =
     (let other = (if hostWs r = w then clientWs r else hostWs r) in
      s\<lparr>clients := (clients s)(w := None),
        waitingByTier := (case tier c of None \<Rightarrow> waitingByTier s
            | Some t \<Rightarrow> if waitingByTier s t = Some w then (waitingByTier s)(t := None) else waitingByTier s),
        rooms := (rooms s)(rid := None),
        readyOpen := readyOpen s - {other},
        sent := sent s @ delivered s [(other, infoMsg ''Opponent disconnected.'')],
        closeCalls := closeCalls s @ [other]\<rparr>)"
  using assms
  by (simp add: cleanup_def Let_def closeWs_def send_eq delivered_def split: option.splits)

lemma join_waits:
  assumes "clients s w = Some c" and "field msg ''type'' = Some (JStr ''join'')"
    and "ToNumber bi (orElse (field msg ''tier'') (JNum (Fin 1))) = Inr t"
    and "ToString bi (orElse (field msg ''tankName'') (JStr ''Tank'')) = Inr n"
    and "\<not> (\<exists>h. waitingByTier s t = Some h \<and> h \<noteq> w \<and> clients s h \<noteq> None)"
  shows "onMessage bi s w (Some msg) u =
     Inr (s\<lparr>clients := (clients s)(w \<mapsto> c\<lparr>tier := Some t, tankName := Some n\<rparr>),
            waitingByTier := (waitingByTier s)(t \<mapsto> w),
            sent := sent s @ delivered s [(w, infoMsg ''Searching for opponent (same tier)...'')]\<rparr>)"
proof -
  from assms(2) have "msg \<noteq> JNull" by (rule field_not_null)
  with assms show ?thesis
    by (auto simp add: onMessage_def onJoin_def Let_def send_eq delivered_def split: option.splits)
qed

lemma join_pairs:
  assumes "clients s w = Some c" and "field msg ''type'' = Some (JStr ''join'')"
    and "ToNumber bi (orElse (field msg ''tier'') (JNum (Fin 1))) = Inr t"
    and "ToString bi (orElse (field msg ''tankName'') (JStr ''Tank'')) = Inr n"
    and "waitingByTier s t = Some h" and "h \<noteq> w" and "clients s h = Some ch"
  shows "onMessage bi s w (Some msg) u =
     Inr (s\<lparr>clients := (clients s)(h \<mapsto> ch\<lparr>roomId := Some u\<rparr>,
                                   w \<mapsto> c\<lparr>tier := Some t, tankName := Some n, roomId := Some u\<rparr>),
            waitingByTier := (waitingByTier s)(t := None),
            rooms := (rooms s)(u \<mapsto> \<lparr>hostWs = h, clientWs = w, roomTier = t\<rparr>),
            sent := sent s @ delivered s
              [(h, matchedMsg u (cid ch) (cid c)), (w, matchedMsg u (cid ch) (cid ch)),
               (h, hostStartMsg), (w, infoMsg waitingForHost)]\<rparr>)"
proof -
  from assms(2) have "msg \<noteq> JNull" by (rule field_not_null)
  with assms show ?thesis
    by (simp add: onMessage_def onJoin_def Let_def send_eq delivered_def)
qed

lemmas eval_defs = initial_def onConnection_def onMessage_def onJoin_def joinMsg_def
  orElse_def send_def Let_def cleanup_def closeWs_def onInput_def onState_def noRoomId_def

lemma join_returns:
  assumes "clients s w = Some c" and "field msg ''type'' = Some (JStr ''join'')"
    and "onMessage bi s w (Some msg) u = Inr s'"
  shows "\<exists>t n. ToNumber bi (orElse (field msg ''tier'') (JNum (Fin 1))) = Inr t
             \<and> ToString bi (orElse (field msg ''tankName'') (JStr ''Tank'')) = Inr n"
proof -
  from assms(2) have "msg \<noteq> JNull" by (rule field_not_null)
  with assms show ?thesis
    by (auto simp add: onMessage_def onJoin_def split: sum.splits)
qed

lemma primitive_converts:
  "primitive v \<Longrightarrow> \<exists>t n. ToNumber bi v = Inr t \<and> ToString bi v = Inr n"
  by (cases v) simp_all

lemma primitive_orElse: "(\<forall>v. x = Some v \<longrightarrow> primitive v) \<Longrightarrow> primitive d \<Longrightarrow> primitive (orElse x d)"
  by (auto simp add: orElse_def split: option.splits)

lemma join_records:
  assumes "clients s w = Some c" and "field msg ''type'' = Some (JStr ''join'')"
    and "ToNumber bi (orElse (field msg ''tier'') (JNum (Fin 1))) = Inr t"
    and "ToString bi (orElse (field msg ''tankName'') (JStr ''Tank'')) = Inr n"
  shows "\<exists>s' c'. onMessage bi s w (Some msg) u = Inr s' \<and> clients s' w = Some c'
           \<and> tier c' = Some t \<and> tankName c' = Some n
           \<and> (\<forall>(x, m) \<in> set (drop (length (sent s)) (sent s')). joinNotice m)"
proof (cases "\<exists>h. waitingByTier s t = Some h \<and> h \<noteq> w \<and> clients s h \<noteq> None")
  case True
  then obtain h ch where h: "waitingByTier s t = Some h" "h \<noteq> w" "clients s h = Some ch"
    by auto
  show ?thesis
    by (auto simp add: join_pairs [OF assms h] delivered_def joinNotice_def)
next
  case False
  show ?thesis
    by (auto simp add: join_waits [OF assms False] delivered_def joinNotice_def)
qed


section \<open>Relay\<close>

lemma input_sends:
  assumes "clients s w = Some c" and "roomId c = Some rid" and "rid \<noteq> []"
    and "rooms s rid = Some r"
    and "field msg ''type'' = Some (JStr ''input'')"
    and "hostWs r \<noteq> w"
  shows "onMessage bi s w (Some msg) u =
           Inr (s\<lparr>sent := sent s @ delivered s
                  [(hostWs r, JObj [(''type'', JStr ''input''),
                      (''payload'', case field msg ''payload'' of
                                      None \<Rightarrow> JObj []
                                    | Some p \<Rightarrow> if truthy p then stringify p else JObj [])])]\<rparr>)"
proof -
  from assms(5) have "msg \<noteq> JNull" by (rule field_not_null)
  with assms show ?thesis
    by (auto simp add: onMessage_def onInput_def noRoomId_def relayMsg_def orElse_def send_eq
        split: option.splits)
qed

lemma state_sends:
  assumes "clients s w = Some c" and "roomId c = Some rid" and "rid \<noteq> []"
    and "rooms s rid = Some r"
    and "field msg ''type'' = Some (JStr ty)" and "ty = ''init'' \<or> ty = ''snapshot''"
    and "hostWs r = w"
  shows "onMessage bi s w (Some msg) u =
           Inr (s\<lparr>sent := sent s @ delivered s
                  [(clientWs r, JObj [(''type'', JStr ty),
                      (''payload'', case field msg ''payload'' of
                                      None \<Rightarrow> JObj []
                                    | Some p \<Rightarrow> if truthy p then stringify p else JObj [])])]\<rparr>)"
proof -
  from assms(5) have "msg \<noteq> JNull" by (rule field_not_null)
  with assms show ?thesis
    by (auto simp add: onMessage_def onState_def noRoomId_def relayMsg_def orElse_def send_eq
        split: option.splits)
qed

lemma relay_dropped:
  assumes "clients s w = Some c" and "roomId c = Some rid" and "rid \<noteq> []"
    and "rooms s rid = Some r"
    and "field msg ''type'' = Some (JStr ty)"
    and "ty = ''input'' \<and> hostWs r = w
         \<or> (ty = ''init'' \<or> ty = ''snapshot'') \<and> hostWs r \<noteq> w"
  shows "onMessage bi s w (Some msg) u = Inr s"
proof -
  from assms(5) have "msg \<noteq> JNull" by (rule field_not_null)
  with assms show ?thesis
    by (auto simp add: onMessage_def onInput_def onState_def noRoomId_def)
qed

text \<open>
  Claim C6, amended. Let the sender be registered with a room reference \<open>rid\<close> to an
  existing room \<open>r\<close>, and let the message be an \<^verbatim>\<open>input\<close>. If the sender is not the host of
  \<open>r\<close>, that is, it is the client member, the listener returns and changes nothing but the
  send log, which gains exactly one message, \<^verbatim>\<open>{type: "input", payload: ...}\<close>, addressed
  to the host (when the host's socket is open). Its payload is the empty object when the
  incoming payload is absent or falsy, and otherwise the incoming payload as
  \<^verbatim>\<open>JSON.stringify\<close> writes it, with \<^verbatim>\<open>null\<close> for every number that is not finite; a truthy
  payload whose numbers are all finite arrives unchanged. If the sender is the host, the
  state is unchanged: nothing is sent to anyone.
\<close>

theorem input_relay:
  assumes "clients s w = Some c" and "roomId c = Some rid" and "rid \<noteq> []"
    and "rooms s rid = Some r"
    and "field msg ''type'' = Some (JStr ''input'')"
  shows "(hostWs r \<noteq> w \<longrightarrow>
            onMessage bi s w (Some msg) u =
              Inr (s\<lparr>sent := sent s @ delivered s
                     [(hostWs r, JObj [(''type'', JStr ''input''),
                         (''payload'', case field msg ''payload'' of
                                         None \<Rightarrow> JObj []
                                       | Some p \<Rightarrow> if truthy p then stringify p else JObj [])])]\<rparr>))
       \<and> (hostWs r \<noteq> w \<longrightarrow>
            (\<forall>p. field msg ''payload'' = Some p \<and> truthy p \<and> allFinite p \<longrightarrow>
               onMessage bi s w (Some msg) u =
                 Inr (s\<lparr>sent := sent s @ delivered s
                        [(hostWs r, JObj [(''type'', JStr ''input''), (''payload'', p)])]\<rparr>)))
       \<and> (hostWs r = w \<longrightarrow> onMessage bi s w (Some msg) u = Inr s)"
proof (intro conjI impI allI)
  assume "hostWs r \<noteq> w"
  then show "onMessage bi s w (Some msg) u =
              Inr (s\<lparr>sent := sent s @ delivered s
                     [(hostWs r, JObj [(''type'', JStr ''input''),
                         (''payload'', case field msg ''payload'' of
                                         None \<Rightarrow> JObj []
                                       | Some p \<Rightarrow> if truthy p then stringify p else JObj [])])]\<rparr>)"
    by (rule input_sends [OF assms])
next
  fix p
  assume h: "hostWs r \<noteq> w"
    and p: "field msg ''payload'' = Some p \<and> truthy p \<and> allFinite p"
  then have "stringify p = p" by (simp add: stringify_finite)
  with p show "onMessage bi s w (Some msg) u =
                 Inr (s\<lparr>sent := sent s @ delivered s
                        [(hostWs r, JObj [(''type'', JStr ''input''), (''payload'', p)])]\<rparr>)"
    by (simp add: input_sends [OF assms h])
next
  assume "hostWs r = w"
  then have "''input'' = ''input'' \<and> hostWs r = w
         \<or> (''input'' = ''init'' \<or> ''input'' = ''snapshot'') \<and> hostWs r \<noteq> w"
    by simp
  then show "onMessage bi s w (Some msg) u = Inr s"
    by (rule relay_dropped [OF assms(1-5)])
qed

theorem input_relay_witness:
  "\<forall>bi. clients roomState 2 = Some \<lparr>cid = ''b'', tier = Some (Fin 1), tankName = Some ''Y'', roomId = Some ''r1''\<rparr>
     \<and> rooms roomState ''r1'' = Some \<lparr>hostWs = 1, clientWs = 2, roomTier = Fin 1\<rparr>
     \<and> sent roomState = []
     \<and> onMessage bi roomState 2
         (Some (JObj [(''type'', JStr ''input''), (''payload'', JObj [(''fire'', JBool True)])])) ''u''
       = Inr (roomState\<lparr>sent := [(1, JObj [(''type'', JStr ''input''),
                                            (''payload'', JObj [(''fire'', JBool True)])])]\<rparr>)
     \<and> onMessage bi roomState 1
         (Some (JObj [(''type'', JStr ''input''), (''payload'', JObj [(''fire'', JBool True)])])) ''u''
       = Inr roomState"
proof (intro allI)
  fix bi
  let ?p = "JObj [(''fire'', JBool True)]"
  let ?m = "JObj [(''type'', JStr ''input''), (''payload'', ?p)]"
  let ?r = "\<lparr>hostWs = 1, clientWs = 2, roomTier = Fin 1\<rparr>"
  have c2: "clients roomState 2 = Some \<lparr>cid = ''b'', tier = Some (Fin 1), tankName = Some ''Y'', roomId = Some ''r1''\<rparr>"
    and c1: "clients roomState 1 = Some \<lparr>cid = ''a'', tier = Some (Fin 1), tankName = Some ''X'', roomId = Some ''r1''\<rparr>"
    and r: "rooms roomState ''r1'' = Some ?r"
    and e: "sent roomState = []"
    and d: "delivered roomState ms = filter (\<lambda>(x, m). x = 1 \<or> x = 2) ms" for ms
    by (simp_all add: roomState_def delivered_def)
  have ty: "field ?m ''type'' = Some (JStr ''input'')" by simp
  have rb: "roomId \<lparr>cid = ''b'', tier = Some (Fin 1), tankName = Some ''Y'', roomId = Some ''r1''\<rparr> = Some ''r1''"
    and ra: "roomId \<lparr>cid = ''a'', tier = Some (Fin 1), tankName = Some ''X'', roomId = Some ''r1''\<rparr> = Some ''r1''"
    and ne: "''r1'' \<noteq> []" by simp_all
  have pl: "field ?m ''payload'' = Some ?p \<and> truthy ?p \<and> allFinite ?p" by simp
  have h2: "hostWs ?r \<noteq> 2" and h1: "hostWs ?r = 1" by simp_all
  from input_relay [OF c2 rb ne r ty, of bi "''u''", THEN conjunct2, THEN conjunct1,
      rule_format, OF h2 pl]
  have 1: "onMessage bi roomState 2 (Some ?m) ''u'' = Inr (roomState\<lparr>sent := [(1, ?m)]\<rparr>)"
    by (simp add: e d)
  from input_relay [OF c1 ra ne r ty, of bi "''u''", THEN conjunct2, THEN conjunct2,
      rule_format, OF h1]
  have 2: "onMessage bi roomState 1 (Some ?m) ''u'' = Inr roomState" .
  from c2 r e 1 2
  show "clients roomState 2 = Some \<lparr>cid = ''b'', tier = Some (Fin 1), tankName = Some ''Y'', roomId = Some ''r1''\<rparr>
     \<and> rooms roomState ''r1'' = Some ?r
     \<and> sent roomState = []
     \<and> onMessage bi roomState 2 (Some ?m) ''u'' = Inr (roomState\<lparr>sent := [(1, ?m)]\<rparr>)
     \<and> onMessage bi roomState 1 (Some ?m) ''u'' = Inr roomState"
    by (intro conjI)
qed

text \<open>
  Counterexample to claim C6 as stated, which has every input delivered with the same
  payload. In the room of the end-to-end scenario the client sends an \<^verbatim>\<open>input\<close> with
  payload \<^verbatim>\<open>0\<close> and the host is sent the payload \<^verbatim>\<open>{}\<close>; it sends one with payload
  \<^verbatim>\<open>1e999\<close>, which parses to \<^verbatim>\<open>Infinity\<close>, and the host is sent \<^verbatim>\<open>null\<close>.
\<close>

theorem input_payload_counterexample:
  "\<forall>bi. onMessage bi roomState 2
           (Some (JObj [(''type'', JStr ''input''), (''payload'', JNum (Fin 0))])) ''u''
         = Inr (roomState\<lparr>sent := [(1, JObj [(''type'', JStr ''input''), (''payload'', JObj [])])]\<rparr>)
      \<and> onMessage bi roomState 2
           (Some (JObj [(''type'', JStr ''input''), (''payload'', JNum PosInf)])) ''u''
         = Inr (roomState\<lparr>sent := [(1, JObj [(''type'', JStr ''input''), (''payload'', JNull)])]\<rparr>)"
  by (simp add: roomState_def onMessage_def onInput_def noRoomId_def relayMsg_def orElse_def
      send_def)

text \<open>
  Claim C7, amended. Under the same conditions on the sender and its room, an \<^verbatim>\<open>init\<close> or
  \<^verbatim>\<open>snapshot\<close> message sent by the host adds to the send log exactly one message,
  addressed to the client member (when its socket is open) and carrying the type of the
  incoming message. Its payload is the empty object when the incoming payload is absent
  or falsy, and otherwise the incoming payload as \<^verbatim>\<open>JSON.stringify\<close> writes it, with
  \<^verbatim>\<open>null\<close> for every number that is not finite; a truthy payload whose numbers are all
  finite arrives unchanged. Sent by anyone but the host the message leaves the state
  unchanged.
\<close>

theorem state_relay:
  assumes "clients s w = Some c" and "roomId c = Some rid" and "rid \<noteq> []"
    and "rooms s rid = Some r"
    and "field msg ''type'' = Some (JStr ty)" and "ty = ''init'' \<or> ty = ''snapshot''"
  shows "(hostWs r = w \<longrightarrow>
            onMessage bi s w (Some msg) u =
              Inr (s\<lparr>sent := sent s @ delivered s
                     [(clientWs r, JObj [(''type'', JStr ty),
                         (''payload'', case field msg ''payload'' of
                                         None \<Rightarrow> JObj []
                                       | Some p \<Rightarrow> if truthy p then stringify p else JObj [])])]\<rparr>))
       \<and> (hostWs r = w \<longrightarrow>
            (\<forall>p. field msg ''payload'' = Some p \<and> truthy p \<and> allFinite p \<longrightarrow>
               onMessage bi s w (Some msg) u =
                 Inr (s\<lparr>sent := sent s @ delivered s
                        [(clientWs r, JObj [(''type'', JStr ty), (''payload'', p)])]\<rparr>)))
       \<and> (hostWs r \<noteq> w \<longrightarrow> onMessage bi s w (Some msg) u = Inr s)"
proof (intro conjI impI allI)
  assume "hostWs r = w"
  then show "onMessage bi s w (Some msg) u =
              Inr (s\<lparr>sent := sent s @ delivered s
                     [(clientWs r, JObj [(''type'', JStr ty),
                         (''payload'', case field msg ''payload'' of
                                         None \<Rightarrow> JObj []
                                       | Some p \<Rightarrow> if truthy p then stringify p else JObj [])])]\<rparr>)"
    by (rule state_sends [OF assms])
next
  fix p
  assume h: "hostWs r = w"
    and p: "field msg ''payload'' = Some p \<and> truthy p \<and> allFinite p"
  then have "stringify p = p" by (simp add: stringify_finite)
  with p show "onMessage bi s w (Some msg) u =
                 Inr (s\<lparr>sent := sent s @ delivered s
                        [(clientWs r, JObj [(''type'', JStr ty), (''payload'', p)])]\<rparr>)"
    by (simp add: state_sends [OF assms h])
next
  assume "hostWs r \<noteq> w"
  with assms(6) have "ty = ''input'' \<and> hostWs r = w
         \<or> (ty = ''init'' \<or> ty = ''snapshot'') \<and> hostWs r \<noteq> w"
    by simp
  then show "onMessage bi s w (Some msg) u = Inr s"
    by (rule relay_dropped [OF assms(1-5)])
qed

theorem state_relay_witness:
  "\<forall>bi. clients roomState 1 = Some \<lparr>cid = ''a'', tier = Some (Fin 1), tankName = Some ''X'', roomId = Some ''r1''\<rparr>
     \<and> rooms roomState ''r1'' = Some \<lparr>hostWs = 1, clientWs = 2, roomTier = Fin 1\<rparr>
     \<and> onMessage bi roomState 1
         (Some (JObj [(''type'', JStr ''init''), (''payload'', JObj [(''x'', JNum (Fin 1))])])) ''u''
       = Inr (roomState\<lparr>sent := [(2, JObj [(''type'', JStr ''init''),
                                            (''payload'', JObj [(''x'', JNum (Fin 1))])])]\<rparr>)
     \<and> onMessage bi roomState 1
         (Some (JObj [(''type'', JStr ''snapshot''), (''payload'', JObj [(''x'', JNum (Fin 1))])])) ''u''
       = Inr (roomState\<lparr>sent := [(2, JObj [(''type'', JStr ''snapshot''),
                                            (''payload'', JObj [(''x'', JNum (Fin 1))])])]\<rparr>)
     \<and> onMessage bi roomState 2
         (Some (JObj [(''type'', JStr ''init''), (''payload'', JObj [(''x'', JNum (Fin 1))])])) ''u''
       = Inr roomState"
proof (intro allI)
  fix bi
  let ?p = "JObj [(''x'', JNum (Fin 1))]"
  let ?i = "JObj [(''type'', JStr ''init''), (''payload'', ?p)]"
  let ?n = "JObj [(''type'', JStr ''snapshot''), (''payload'', ?p)]"
  let ?r = "\<lparr>hostWs = 1, clientWs = 2, roomTier = Fin 1\<rparr>"
  have c2: "clients roomState 2 = Some \<lparr>cid = ''b'', tier = Some (Fin 1), tankName = Some ''Y'', roomId = Some ''r1''\<rparr>"
    and c1: "clients roomState 1 = Some \<lparr>cid = ''a'', tier = Some (Fin 1), tankName = Some ''X'', roomId = Some ''r1''\<rparr>"
    and r: "rooms roomState ''r1'' = Some ?r"
    and e: "sent roomState = []"
    and d: "delivered roomState ms = filter (\<lambda>(x, m). x = 1 \<or> x = 2) ms" for ms
    by (simp_all add: roomState_def delivered_def)
  have ti: "field ?i ''type'' = Some (JStr ''init'')"
    and tn: "field ?n ''type'' = Some (JStr ''snapshot'')"
    and ki: "''init'' = ''init'' \<or> ''init'' = ''snapshot''"
    and kn: "''snapshot'' = ''init'' \<or> ''snapshot'' = ''snapshot''"
    by simp_all
  have rb: "roomId \<lparr>cid = ''b'', tier = Some (Fin 1), tankName = Some ''Y'', roomId = Some ''r1''\<rparr> = Some ''r1''"
    and ra: "roomId \<lparr>cid = ''a'', tier = Some (Fin 1), tankName = Some ''X'', roomId = Some ''r1''\<rparr> = Some ''r1''"
    and ne: "''r1'' \<noteq> []" by simp_all
  have pi: "field ?i ''payload'' = Some ?p \<and> truthy ?p \<and> allFinite ?p"
    and pn: "field ?n ''payload'' = Some ?p \<and> truthy ?p \<and> allFinite ?p" by simp_all
  have h1: "hostWs ?r = 1" and h2: "hostWs ?r \<noteq> 2" by simp_all
  from state_relay [OF c1 ra ne r ti ki, of bi "''u''", THEN conjunct2, THEN conjunct1,
      rule_format, OF h1 pi]
  have 1: "onMessage bi roomState 1 (Some ?i) ''u'' = Inr (roomState\<lparr>sent := [(2, ?i)]\<rparr>)"
    by (simp add: e d)
  from state_relay [OF c1 ra ne r tn kn, of bi "''u''", THEN conjunct2, THEN conjunct1,
      rule_format, OF h1 pn]
  have 2: "onMessage bi roomState 1 (Some ?n) ''u'' = Inr (roomState\<lparr>sent := [(2, ?n)]\<rparr>)"
    by (simp add: e d)
  from state_relay [OF c2 rb ne r ti ki, of bi "''u''", THEN conjunct2, THEN conjunct2,
      rule_format, OF h2]
  have 3: "onMessage bi roomState 2 (Some ?i) ''u'' = Inr roomState" .
  from c1 r 1 2 3
  show "clients roomState 1 = Some \<lparr>cid = ''a'', tier = Some (Fin 1), tankName = Some ''X'', roomId = Some ''r1''\<rparr>
     \<and> rooms roomState ''r1'' = Some ?r
     \<and> onMessage bi roomState 1 (Some ?i) ''u'' = Inr (roomState\<lparr>sent := [(2, ?i)]\<rparr>)
     \<and> onMessage bi roomState 1 (Some ?n) ''u'' = Inr (roomState\<lparr>sent := [(2, ?n)]\<rparr>)
     \<and> onMessage bi roomState 2 (Some ?i) ''u'' = Inr roomState"
    by (intro conjI)
qed

text \<open>
  Counterexample to claim C7 as stated, which has every init or snapshot delivered with
  the same payload. In the room of the end-to-end scenario the host sends a \<^verbatim>\<open>snapshot\<close>
  with payload \<^verbatim>\<open>null\<close> and the client is sent the payload \<^verbatim>\<open>{}\<close>; it sends an \<^verbatim>\<open>init\<close>
  with payload \<^verbatim>\<open>{"hp": -1e999}\<close>, which parses to \<^verbatim>\<open>{hp: -Infinity}\<close>, and the client
  is sent \<^verbatim>\<open>{"hp": null}\<close>.
\<close>

theorem state_payload_counterexample:
  "\<forall>bi. onMessage bi roomState 1
           (Some (JObj [(''type'', JStr ''snapshot''), (''payload'', JNull)])) ''u''
         = Inr (roomState\<lparr>sent := [(2, JObj [(''type'', JStr ''snapshot''), (''payload'', JObj [])])]\<rparr>)
      \<and> onMessage bi roomState 1
           (Some (JObj [(''type'', JStr ''init''), (''payload'', JObj [(''hp'', JNum NegInf)])])) ''u''
         = Inr (roomState\<lparr>sent := [(2, JObj [(''type'', JStr ''init''),
                                              (''payload'', JObj [(''hp'', JNull)])])]\<rparr>)"
  by (simp add: roomState_def onMessage_def onState_def noRoomId_def relayMsg_def orElse_def
      send_def)



section \<open>Teardown\<close>

text \<open>
  Claim C8. Let \<open>w\<close> be registered with a room reference \<open>rid\<close> to an existing room \<open>r\<close>,
  and let \<open>other\<close> be the member of \<open>r\<close> that \<^verbatim>\<open>cleanup\<close> picks. Then \<^verbatim>\<open>cleanup\<close> adds to the
  send log exactly one notice \<^verbatim>\<open>{type: "info", text: "Opponent disconnected."}\<close> for
  \<open>other\<close> (when its socket is open), calls \<^verbatim>\<open>close()\<close> on \<open>other\<close> once, after which that
  socket is not open, removes the room and unregisters \<open>w\<close>. Afterwards an \<^verbatim>\<open>input\<close>,
  \<^verbatim>\<open>init\<close> or \<^verbatim>\<open>snapshot\<close> from any connection whose room reference is \<open>rid\<close>, and any
  message from \<open>w\<close> itself, leaves the state unchanged, and a second \<^verbatim>\<open>cleanup\<close> of \<open>w\<close>
  changes nothing and sends nothing.
\<close>

theorem teardown_room:
  assumes "clients s w = Some c" and "roomId c = Some rid" and "rid \<noteq> []"
    and "rooms s rid = Some r"
    and "other = (if hostWs r = w then clientWs r else hostWs r)"
  shows "sent (cleanup s w) = sent s @ delivered s [(other, infoMsg ''Opponent disconnected.'')]
       \<and> closeCalls (cleanup s w) = closeCalls s @ [other]
       \<and> other \<notin> readyOpen (cleanup s w)
       \<and> rooms (cleanup s w) = (rooms s)(rid := None)
       \<and> clients (cleanup s w) = (clients s)(w := None)
       \<and> (\<forall>x cx m ty v. clients (cleanup s w) x = Some cx \<and> roomId cx = Some rid
             \<and> field m ''type'' = Some (JStr ty) \<and> ty \<in> {''input'', ''init'', ''snapshot''}
             \<longrightarrow> onMessage bi (cleanup s w) x (Some m) v = Inr (cleanup s w))
       \<and> (\<forall>raw v. onMessage bi (cleanup s w) w raw v = Inr (cleanup s w))
       \<and> cleanup (cleanup s w) w = cleanup s w"
proof -
  let ?s = "cleanup s w"
  note eq = cleanup_room [OF assms(1-4)]
  have 1: "sent ?s = sent s @ delivered s [(other, infoMsg ''Opponent disconnected.'')]"
    and 2: "closeCalls ?s = closeCalls s @ [other]"
    and 3: "other \<notin> readyOpen ?s"
    and 4: "rooms ?s = (rooms s)(rid := None)"
    and 5: "clients ?s = (clients s)(w := None)"
    using assms(5) by (simp_all add: eq Let_def)
  have 6: "onMessage bi ?s x (Some m) v = Inr ?s"
    if "clients ?s x = Some cx \<and> roomId cx = Some rid
        \<and> field m ''type'' = Some (JStr ty) \<and> ty \<in> {''input'', ''init'', ''snapshot''}"
    for x cx m ty v
  proof -
    from that have "m \<noteq> JNull" by (auto dest: field_not_null)
    moreover have "rooms ?s rid = None" by (simp add: 4)
    ultimately show ?thesis using that
      by (auto simp add: onMessage_def onInput_def onState_def noRoomId_def)
  qed
  have 7: "onMessage bi ?s w raw v = Inr ?s" for raw v
    by (simp add: onMessage_def 5 split: option.splits)
  from 1 2 3 4 5 6 7 cleanup_idem show ?thesis by blast
qed

theorem teardown_room_witness:
  "\<forall>bi. clients roomState 1 = Some \<lparr>cid = ''a'', tier = Some (Fin 1), tankName = Some ''X'', roomId = Some ''r1''\<rparr>
     \<and> rooms roomState ''r1'' = Some \<lparr>hostWs = 1, clientWs = 2, roomTier = Fin 1\<rparr>
     \<and> sent (cleanup roomState 1) = [(2, infoMsg ''Opponent disconnected.'')]
     \<and> closeCalls (cleanup roomState 1) = [2]
     \<and> 2 \<notin> readyOpen (cleanup roomState 1)
     \<and> rooms (cleanup roomState 1) ''r1'' = None
     \<and> onMessage bi (cleanup roomState 1) 2
          (Some (JObj [(''type'', JStr ''input''), (''payload'', JObj [])])) ''u''
        = Inr (cleanup roomState 1)
     \<and> cleanup (cleanup roomState 1) 1 = cleanup roomState 1"
proof (intro allI)
  fix bi
  let ?m = "JObj [(''type'', JStr ''input''), (''payload'', JObj [])]"
  have c1: "clients roomState 1 = Some \<lparr>cid = ''a'', tier = Some (Fin 1), tankName = Some ''X'', roomId = Some ''r1''\<rparr>"
    and c2: "clients roomState 2 = Some \<lparr>cid = ''b'', tier = Some (Fin 1), tankName = Some ''Y'', roomId = Some ''r1''\<rparr>"
    and r: "rooms roomState ''r1'' = Some \<lparr>hostWs = 1, clientWs = 2, roomTier = Fin 1\<rparr>"
    and e: "sent roomState = []" "closeCalls roomState = []"
    and d: "delivered roomState [(2, m)] = [(2, m)]" for m
    by (simp_all add: roomState_def delivered_def)
  have o: "(2::nat) = (if hostWs \<lparr>hostWs = 1, clientWs = 2, roomTier = Fin 1\<rparr> = 1
                 then clientWs \<lparr>hostWs = 1, clientWs = 2, roomTier = Fin 1\<rparr>
                 else hostWs \<lparr>hostWs = 1, clientWs = 2, roomTier = Fin 1\<rparr>)" by simp
  have rc: "roomId \<lparr>cid = ''a'', tier = Some (Fin 1), tankName = Some ''X'', roomId = Some ''r1''\<rparr> = Some ''r1''"
    and ne: "''r1'' \<noteq> []" by simp_all
  note t = teardown_room [OF c1 rc ne r o, of bi]
  from t have cl: "clients (cleanup roomState 1) = (clients roomState)(1 := None)" by blast
  from t have relay: "\<And>x cx m ty v. clients (cleanup roomState 1) x = Some cx \<and> roomId cx = Some ''r1''
             \<and> field m ''type'' = Some (JStr ty) \<and> ty \<in> {''input'', ''init'', ''snapshot''}
             \<Longrightarrow> onMessage bi (cleanup roomState 1) x (Some m) v = Inr (cleanup roomState 1)"
    by blast
  have c2': "clients (cleanup roomState 1) 2
      = Some \<lparr>cid = ''b'', tier = Some (Fin 1), tankName = Some ''Y'', roomId = Some ''r1''\<rparr>"
    using cl c2 by simp
  have "onMessage bi (cleanup roomState 1) 2 (Some ?m) ''u'' = Inr (cleanup roomState 1)"
    using relay [of 2 _ ?m "''input''" "''u''"] c2' by simp
  with t show "clients roomState 1 = Some \<lparr>cid = ''a'', tier = Some (Fin 1), tankName = Some ''X'', roomId = Some ''r1''\<rparr>
     \<and> rooms roomState ''r1'' = Some \<lparr>hostWs = 1, clientWs = 2, roomTier = Fin 1\<rparr>
     \<and> sent (cleanup roomState 1) = [(2, infoMsg ''Opponent disconnected.'')]
     \<and> closeCalls (cleanup roomState 1) = [2]
     \<and> 2 \<notin> readyOpen (cleanup roomState 1)
     \<and> rooms (cleanup roomState 1) ''r1'' = None
     \<and> onMessage bi (cleanup roomState 1) 2 (Some ?m) ''u'' = Inr (cleanup roomState 1)
     \<and> cleanup (cleanup roomState 1) 1 = cleanup roomState 1"
    using c1 r e d by simp
qed

section \<open>Matchmaking\<close>

text \<open>
  Claim C5. Let \<open>a\<close> and \<open>b\<close> be distinct registered connections, let nobody wait on tier
  \<open>t\<close>, and let \<open>m1\<close> and \<open>m2\<close> be \<^verbatim>\<open>join\<close> messages whose tier converts to \<open>t\<close>. The
  listener returns on \<open>m1\<close> from \<open>a\<close>: \<open>a\<close> is the waiter of \<open>t\<close>, no room is created, the room
  reference of \<open>a\<close> is what it was, and the only message sent is the informational notice
  to \<open>a\<close>. It then returns on \<open>m2\<close> from \<open>b\<close>: exactly one room is added, with host \<open>a\<close>,
  client \<open>b\<close> and tier \<open>t\<close>, the slot of \<open>t\<close> is empty, both connections refer to the room,
  \<open>a\<close> is sent \<^verbatim>\<open>matched\<close> and \<^verbatim>\<open>hostStart\<close>, \<open>b\<close> is sent \<^verbatim>\<open>matched\<close> and the
  informational notice, and no \<^verbatim>\<open>hostStart\<close> goes to \<open>b\<close>. Messages reach open sockets only.
\<close>

theorem first_come_first_served:
  assumes "clients s a = Some ca" and "clients s b = Some cb" and "b \<noteq> a"
    and "waitingByTier s t = None"
    and "field m1 ''type'' = Some (JStr ''join'')"
    and "ToNumber bi (orElse (field m1 ''tier'') (JNum (Fin 1))) = Inr t"
    and "ToString bi (orElse (field m1 ''tankName'') (JStr ''Tank'')) = Inr na"
    and "field m2 ''type'' = Some (JStr ''join'')"
    and "ToNumber bi (orElse (field m2 ''tier'') (JNum (Fin 1))) = Inr t"
    and "ToString bi (orElse (field m2 ''tankName'') (JStr ''Tank'')) = Inr nb"
  shows "\<exists>s1 s2.
      onMessage bi s a (Some m1) u1 = Inr s1
    \<and> waitingByTier s1 t = Some a
    \<and> rooms s1 = rooms s
    \<and> map_option roomId (clients s1 a) = Some (roomId ca)
    \<and> sent s1 = sent s @ delivered s [(a, infoMsg ''Searching for opponent (same tier)...'')]
    \<and> onMessage bi s1 b (Some m2) u2 = Inr s2
    \<and> rooms s2 = (rooms s)(u2 \<mapsto> \<lparr>hostWs = a, clientWs = b, roomTier = t\<rparr>)
    \<and> waitingByTier s2 t = None
    \<and> map_option roomId (clients s2 a) = Some (Some u2)
    \<and> map_option roomId (clients s2 b) = Some (Some u2)
    \<and> sent s2 = sent s1 @ delivered s
          [(a, matchedMsg u2 (cid ca) (cid cb)), (b, matchedMsg u2 (cid ca) (cid ca)),
           (a, hostStartMsg), (b, infoMsg waitingForHost)]
    \<and> (b, hostStartMsg) \<notin> set (drop (length (sent s)) (sent s2))"
proof -
  let ?ca = "ca\<lparr>tier := Some t, tankName := Some na\<rparr>"
  let ?s1 = "s\<lparr>clients := (clients s)(a \<mapsto> ?ca),
            waitingByTier := (waitingByTier s)(t \<mapsto> a),
            sent := sent s @ delivered s [(a, infoMsg ''Searching for opponent (same tier)...'')]\<rparr>"
  from assms(4) have nw: "\<not> (\<exists>h. waitingByTier s t = Some h \<and> h \<noteq> a \<and> clients s h \<noteq> None)"
    by simp
  have 1: "onMessage bi s a (Some m1) u1 = Inr ?s1"
    by (rule join_waits [OF assms(1) assms(5) assms(6) assms(7) nw])
  have b1: "clients ?s1 b = Some cb" and w1: "waitingByTier ?s1 t = Some a"
    and a1: "clients ?s1 a = Some ?ca"
    using assms(2,3) by simp_all
  note 2 = join_pairs [OF b1 assms(8) assms(9) assms(10) w1 _ a1, of u2]
  have ne: "a \<noteq> b" using assms(3) by simp
  let ?s2 = "?s1\<lparr>clients := (clients ?s1)(a \<mapsto> ?ca\<lparr>roomId := Some u2\<rparr>,
                                   b \<mapsto> cb\<lparr>tier := Some t, tankName := Some nb, roomId := Some u2\<rparr>),
            waitingByTier := (waitingByTier ?s1)(t := None),
            rooms := (rooms ?s1)(u2 \<mapsto> \<lparr>hostWs = a, clientWs = b, roomTier = t\<rparr>),
            sent := sent ?s1 @ delivered ?s1
              [(a, matchedMsg u2 (cid ?ca) (cid cb)), (b, matchedMsg u2 (cid ?ca) (cid ?ca)),
               (a, hostStartMsg), (b, infoMsg waitingForHost)]\<rparr>"
  from 2 ne have 3: "onMessage bi ?s1 b (Some m2) u2 = Inr ?s2" by simp
  have d: "delivered ?s1 ms = delivered s ms" for ms by (simp add: delivered_def)
  have hs: "(b, hostStartMsg) \<notin> set (drop (length (sent s)) (sent ?s2))"
    using assms(3)
    by (auto simp add: delivered_def hostStartMsg_def matchedMsg_def infoMsg_def)
  show ?thesis
    apply (rule exI [of _ ?s1], rule exI [of _ ?s2])
    apply (intro conjI)
               apply (rule 1)
              apply simp
             apply simp
            apply simp
           apply simp
          apply (rule 3)
         apply simp
        apply simp
       apply (simp add: ne)
      apply simp
     apply (simp add: d)
    apply (rule hs)
    done
qed

theorem first_come_first_served_witness:
  "\<forall>bi. clients freshState 1 = Some \<lparr>cid = ''a'', tier = None, tankName = None, roomId = None\<rparr>
     \<and> clients freshState 2 = Some \<lparr>cid = ''b'', tier = None, tankName = None, roomId = None\<rparr>
     \<and> waitingByTier freshState (Fin 1) = None
     \<and> (\<exists>s1 s2.
          onMessage bi freshState 1 (Some (joinMsg (Fin 1) ''X'')) ''u1'' = Inr s1
        \<and> waitingByTier s1 (Fin 1) = Some 1
        \<and> sent s1 = [(1, infoMsg ''Searching for opponent (same tier)...'')]
        \<and> onMessage bi s1 2 (Some (joinMsg (Fin 1) ''Y'')) ''r1'' = Inr s2
        \<and> rooms s2 ''r1'' = Some \<lparr>hostWs = 1, clientWs = 2, roomTier = Fin 1\<rparr>
        \<and> waitingByTier s2 (Fin 1) = None
        \<and> sent s2 = [(1, infoMsg ''Searching for opponent (same tier)...''),
                      (1, matchedMsg ''r1'' ''a'' ''b''), (2, matchedMsg ''r1'' ''a'' ''a''),
                      (1, hostStartMsg), (2, infoMsg waitingForHost)])"
proof (intro allI)
  fix bi
  have c1: "clients freshState 1 = Some \<lparr>cid = ''a'', tier = None, tankName = None, roomId = None\<rparr>"
    and c2: "clients freshState 2 = Some \<lparr>cid = ''b'', tier = None, tankName = None, roomId = None\<rparr>"
    and w: "waitingByTier freshState (Fin 1) = None"
    and e: "sent freshState = []" and r: "rooms freshState = Map.empty"
    and d: "delivered freshState ms = filter (\<lambda>(x, m). x = 1 \<or> x = 2) ms" for ms
    by (simp_all add: freshState_def delivered_def)
  have ne: "(2::nat) \<noteq> 1" by simp
  have j: "field (joinMsg (Fin 1) n) ''type'' = Some (JStr ''join'')"
    and t: "ToNumber bi (orElse (field (joinMsg (Fin 1) n) ''tier'') (JNum (Fin 1))) = Inr (Fin 1)"
    for n by (simp_all add: joinMsg_def orElse_def)
  have nx: "ToString bi (orElse (field (joinMsg (Fin 1) ''X'') ''tankName'') (JStr ''Tank'')) = Inr ''X''"
    and ny: "ToString bi (orElse (field (joinMsg (Fin 1) ''Y'') ''tankName'') (JStr ''Tank'')) = Inr ''Y''"
    by (simp_all add: joinMsg_def orElse_def)
  from first_come_first_served [OF c1 c2 ne w j t nx j t ny, of "''u1''" "''r1''"]
  obtain s1 s2 where
      "onMessage bi freshState 1 (Some (joinMsg (Fin 1) ''X'')) ''u1'' = Inr s1"
      "waitingByTier s1 (Fin 1) = Some 1"
      "sent s1 = [(1, infoMsg ''Searching for opponent (same tier)...'')]"
      "onMessage bi s1 2 (Some (joinMsg (Fin 1) ''Y'')) ''r1'' = Inr s2"
      "rooms s2 ''r1'' = Some \<lparr>hostWs = 1, clientWs = 2, roomTier = Fin 1\<rparr>"
      "waitingByTier s2 (Fin 1) = None"
      "sent s2 = [(1, infoMsg ''Searching for opponent (same tier)...''),
                      (1, matchedMsg ''r1'' ''a'' ''b''), (2, matchedMsg ''r1'' ''a'' ''a''),
                      (1, hostStartMsg), (2, infoMsg waitingForHost)]"
    by (auto simp add: e r d)
  with c1 c2 w show "clients freshState 1 = Some \<lparr>cid = ''a'', tier = None, tankName = None, roomId = None\<rparr>
     \<and> clients freshState 2 = Some \<lparr>cid = ''b'', tier = None, tankName = None, roomId = None\<rparr>
     \<and> waitingByTier freshState (Fin 1) = None
     \<and> (\<exists>s1 s2.
          onMessage bi freshState 1 (Some (joinMsg (Fin 1) ''X'')) ''u1'' = Inr s1
        \<and> waitingByTier s1 (Fin 1) = Some 1
        \<and> sent s1 = [(1, infoMsg ''Searching for opponent (same tier)...'')]
        \<and> onMessage bi s1 2 (Some (joinMsg (Fin 1) ''Y'')) ''r1'' = Inr s2
        \<and> rooms s2 ''r1'' = Some \<lparr>hostWs = 1, clientWs = 2, roomTier = Fin 1\<rparr>
        \<and> waitingByTier s2 (Fin 1) = None
        \<and> sent s2 = [(1, infoMsg ''Searching for opponent (same tier)...''),
                      (1, matchedMsg ''r1'' ''a'' ''b''), (2, matchedMsg ''r1'' ''a'' ''a''),
                      (1, hostStartMsg), (2, infoMsg waitingForHost)])"
    by blast
qed

text \<open>
  Claim C9. In every state (hence in every reachable one) the tier queue, a map from
  tiers to sockets, records at most one waiter per tier. A \<^verbatim>\<open>join\<close> on which the listener
  returns changes the queue at the tier \<open>t\<close> of the request only: either a waiter of \<open>t\<close>
  other than the sender was registered and the slot of \<open>t\<close> is emptied, or the sender is
  installed as the one waiter of \<open>t\<close>.
\<close>

theorem one_waiter_per_tier:
  "(\<forall>t. card {h. waitingByTier s t = Some h} \<le> 1)
   \<and> (\<forall>w c msg u s'.
        clients s w = Some c \<and> field msg ''type'' = Some (JStr ''join'')
        \<and> onMessage bi s w (Some msg) u = Inr s'
        \<longrightarrow> (\<exists>t. ToNumber bi (orElse (field msg ''tier'') (JNum (Fin 1))) = Inr t
               \<and> ((\<exists>h. waitingByTier s t = Some h \<and> h \<noteq> w \<and> clients s h \<noteq> None
                      \<and> waitingByTier s' = (waitingByTier s)(t := None))
                  \<or> waitingByTier s' = (waitingByTier s)(t \<mapsto> w))))"
proof (intro conjI allI impI)
  fix t
  show "card {h. waitingByTier s t = Some h} \<le> 1"
    by (cases "waitingByTier s t") simp_all
next
  fix w c msg u s'
  assume a: "clients s w = Some c \<and> field msg ''type'' = Some (JStr ''join'')
        \<and> onMessage bi s w (Some msg) u = Inr s'"
  then obtain t n where t: "ToNumber bi (orElse (field msg ''tier'') (JNum (Fin 1))) = Inr t"
    and n: "ToString bi (orElse (field msg ''tankName'') (JStr ''Tank'')) = Inr n"
    using join_returns by blast
  show "\<exists>t. ToNumber bi (orElse (field msg ''tier'') (JNum (Fin 1))) = Inr t
               \<and> ((\<exists>h. waitingByTier s t = Some h \<and> h \<noteq> w \<and> clients s h \<noteq> None
                      \<and> waitingByTier s' = (waitingByTier s)(t := None))
                  \<or> waitingByTier s' = (waitingByTier s)(t \<mapsto> w))"
  proof (cases "\<exists>h. waitingByTier s t = Some h \<and> h \<noteq> w \<and> clients s h \<noteq> None")
    case True
    then obtain h ch where h: "waitingByTier s t = Some h" "h \<noteq> w" "clients s h = Some ch"
      by auto
    from a join_pairs [OF _ _ t n h, of c u]
    have "waitingByTier s' = (waitingByTier s)(t := None)" by auto
    with h t show ?thesis by auto
  next
    case False
    from a join_waits [OF _ _ t n False, of c u]
    have "waitingByTier s' = (waitingByTier s)(t \<mapsto> w)" by auto
    with t show ?thesis by auto
  qed
qed

theorem one_waiter_per_tier_witness:
  "\<forall>bi. card {h. waitingByTier lobbyState (Fin 1) = Some h} \<le> 1
     \<and> clients lobbyState 2 = Some \<lparr>cid = ''b'', tier = None, tankName = None, roomId = None\<rparr>
     \<and> waitingByTier lobbyState (Fin 1) = Some 1
     \<and> (\<exists>s'. onMessage bi lobbyState 2 (Some (joinMsg (Fin 1) ''Y'')) ''r1'' = Inr s'
           \<and> waitingByTier s' = (waitingByTier lobbyState)(Fin 1 := None))
     \<and> (\<exists>s'. onMessage bi lobbyState 2 (Some (joinMsg (Fin 3) ''Y'')) ''r1'' = Inr s'
           \<and> waitingByTier s' = (waitingByTier lobbyState)(Fin 3 \<mapsto> 2))"
proof (intro allI)
  fix bi
  have c2: "clients lobbyState 2 = Some \<lparr>cid = ''b'', tier = None, tankName = None, roomId = None\<rparr>"
    and c1: "clients lobbyState 1 \<noteq> None"
    and w: "waitingByTier lobbyState (Fin 1) = Some 1" "waitingByTier lobbyState (Fin 3) = None"
    by (simp_all add: lobbyState_def)
  have j: "field (joinMsg x n) ''type'' = Some (JStr ''join'')"
    and t: "ToNumber bi (orElse (field (joinMsg (Fin 1) n) ''tier'') (JNum (Fin 1))) = Inr (Fin 1)"
      "ToNumber bi (orElse (field (joinMsg (Fin 3) n) ''tier'') (JNum (Fin 1))) = Inr (Fin 3)"
    for x n by (simp_all add: joinMsg_def orElse_def)
  obtain s1 where s1: "onMessage bi lobbyState 2 (Some (joinMsg (Fin 1) ''Y'')) ''r1'' = Inr s1"
    using c1 c2 w
    by (auto simp add: onMessage_def onJoin_def joinMsg_def orElse_def Let_def)
  obtain s3 where s3: "onMessage bi lobbyState 2 (Some (joinMsg (Fin 3) ''Y'')) ''r1'' = Inr s3"
    using c1 c2 w
    by (auto simp add: onMessage_def onJoin_def joinMsg_def orElse_def Let_def)
  note th = one_waiter_per_tier [of lobbyState bi]
  from th have card: "card {h. waitingByTier lobbyState (Fin 1) = Some h} \<le> 1" by blast
  from th c2 j s1 have "\<exists>t. ToNumber bi (orElse (field (joinMsg (Fin 1) ''Y'') ''tier'') (JNum (Fin 1))) = Inr t
               \<and> ((\<exists>h. waitingByTier lobbyState t = Some h \<and> h \<noteq> 2 \<and> clients lobbyState h \<noteq> None
                      \<and> waitingByTier s1 = (waitingByTier lobbyState)(t := None))
                  \<or> waitingByTier s1 = (waitingByTier lobbyState)(t \<mapsto> 2))" by blast
  then have r1: "waitingByTier s1 = (waitingByTier lobbyState)(Fin 1 := None)"
    using t w s1 c1 c2
    by (auto simp add: onMessage_def onJoin_def joinMsg_def orElse_def Let_def)
  from th c2 j s3 have "\<exists>t. ToNumber bi (orElse (field (joinMsg (Fin 3) ''Y'') ''tier'') (JNum (Fin 1))) = Inr t
               \<and> ((\<exists>h. waitingByTier lobbyState t = Some h \<and> h \<noteq> 2 \<and> clients lobbyState h \<noteq> None
                      \<and> waitingByTier s3 = (waitingByTier lobbyState)(t := None))
                  \<or> waitingByTier s3 = (waitingByTier lobbyState)(t \<mapsto> 2))" by blast
  then have r3: "waitingByTier s3 = (waitingByTier lobbyState)(Fin 3 \<mapsto> 2)"
    using t w by auto
  from card c2 w s1 r1 s3 r3
  show "card {h. waitingByTier lobbyState (Fin 1) = Some h} \<le> 1
     \<and> clients lobbyState 2 = Some \<lparr>cid = ''b'', tier = None, tankName = None, roomId = None\<rparr>
     \<and> waitingByTier lobbyState (Fin 1) = Some 1
     \<and> (\<exists>s'. onMessage bi lobbyState 2 (Some (joinMsg (Fin 1) ''Y'')) ''r1'' = Inr s'
           \<and> waitingByTier s' = (waitingByTier lobbyState)(Fin 1 := None))
     \<and> (\<exists>s'. onMessage bi lobbyState 2 (Some (joinMsg (Fin 3) ''Y'')) ''r1'' = Inr s'
           \<and> waitingByTier s' = (waitingByTier lobbyState)(Fin 3 \<mapsto> 2))"
    by blast
qed

text \<open>
  Claim C1, amended. When a \<^verbatim>\<open>join\<close> pairs the sender \<open>w\<close> with the waiter \<open>h\<close> and both
  sockets are open, the room \<open>u\<close> is recorded with host \<open>h\<close> and client \<open>w\<close>, and each member
  is sent a \<^verbatim>\<open>matched\<close> notice whose \<^verbatim>\<open>roomId\<close> is \<open>u\<close> and whose \<^verbatim>\<open>hostId\<close> is the
  identity of the host. \<^verbatim>\<open>peerId\<close> is the identity of the recipient's opponent: the
  client's in the host's notice, the host's in the client's notice.
\<close>

theorem matched_notices:
  assumes "clients s w = Some c" and "field msg ''type'' = Some (JStr ''join'')"
    and "ToNumber bi (orElse (field msg ''tier'') (JNum (Fin 1))) = Inr t"
    and "ToString bi (orElse (field msg ''tankName'') (JStr ''Tank'')) = Inr n"
    and "waitingByTier s t = Some h" and "h \<noteq> w" and "clients s h = Some ch"
    and "h \<in> readyOpen s" and "w \<in> readyOpen s"
  shows "\<exists>s'. onMessage bi s w (Some msg) u = Inr s'
           \<and> rooms s' u = Some \<lparr>hostWs = h, clientWs = w, roomTier = t\<rparr>
           \<and> sent s' = sent s @
               [(h, JObj [(''type'', JStr ''matched''), (''roomId'', JStr u),
                          (''hostId'', JStr (cid ch)), (''peerId'', JStr (cid c))]),
                (w, JObj [(''type'', JStr ''matched''), (''roomId'', JStr u),
                          (''hostId'', JStr (cid ch)), (''peerId'', JStr (cid ch))]),
                (h, hostStartMsg),
                (w, infoMsg waitingForHost)]"
  using assms(8,9)
  by (simp add: join_pairs [OF assms(1-7)] delivered_def matchedMsg_def)

theorem matched_notices_witness:
  "\<forall>bi. clients lobbyState 2 = Some \<lparr>cid = ''b'', tier = None, tankName = None, roomId = None\<rparr>
     \<and> clients lobbyState 1
         = Some \<lparr>cid = ''a'', tier = Some (Fin 1), tankName = Some ''X'', roomId = None\<rparr>
     \<and> waitingByTier lobbyState (Fin 1) = Some 1
     \<and> 1 \<in> readyOpen lobbyState \<and> 2 \<in> readyOpen lobbyState
     \<and> (\<exists>s'. onMessage bi lobbyState 2 (Some (joinMsg (Fin 1) ''Y'')) ''r1'' = Inr s'
           \<and> rooms s' ''r1'' = Some \<lparr>hostWs = 1, clientWs = 2, roomTier = Fin 1\<rparr>
           \<and> sent s' =
               [(1, JObj [(''type'', JStr ''matched''), (''roomId'', JStr ''r1''),
                          (''hostId'', JStr ''a''), (''peerId'', JStr ''b'')]),
                (2, JObj [(''type'', JStr ''matched''), (''roomId'', JStr ''r1''),
                          (''hostId'', JStr ''a''), (''peerId'', JStr ''a'')]),
                (1, hostStartMsg),
                (2, infoMsg waitingForHost)])"
proof (intro allI)
  fix bi
  let ?m = "joinMsg (Fin 1) ''Y''"
  have c2: "clients lobbyState 2 = Some \<lparr>cid = ''b'', tier = None, tankName = None, roomId = None\<rparr>"
    and c1: "clients lobbyState 1
         = Some \<lparr>cid = ''a'', tier = Some (Fin 1), tankName = Some ''X'', roomId = None\<rparr>"
    and w: "waitingByTier lobbyState (Fin 1) = Some 1"
    and o: "1 \<in> readyOpen lobbyState" "2 \<in> readyOpen lobbyState"
    and e: "sent lobbyState = []"
    by (simp_all add: lobbyState_def)
  have j: "field ?m ''type'' = Some (JStr ''join'')"
    and t: "ToNumber bi (orElse (field ?m ''tier'') (JNum (Fin 1))) = Inr (Fin 1)"
    and n: "ToString bi (orElse (field ?m ''tankName'') (JStr ''Tank'')) = Inr ''Y''"
    by (simp_all add: joinMsg_def orElse_def)
  have ne: "(1::nat) \<noteq> 2" by simp
  from matched_notices [OF c2 j t n w ne c1 o, of "''r1''"]
  obtain s' where "onMessage bi lobbyState 2 (Some ?m) ''r1'' = Inr s'"
    and "rooms s' ''r1'' = Some \<lparr>hostWs = 1, clientWs = 2, roomTier = Fin 1\<rparr>"
    and "sent s' = sent lobbyState @
               [(1, JObj [(''type'', JStr ''matched''), (''roomId'', JStr ''r1''),
                          (''hostId'', JStr (cid \<lparr>cid = ''a'', tier = Some (Fin 1), tankName = Some ''X'', roomId = None\<rparr>)),
                          (''peerId'', JStr (cid \<lparr>cid = ''b'', tier = None, tankName = None, roomId = None\<rparr>))]),
                (2, JObj [(''type'', JStr ''matched''), (''roomId'', JStr ''r1''),
                          (''hostId'', JStr (cid \<lparr>cid = ''a'', tier = Some (Fin 1), tankName = Some ''X'', roomId = None\<rparr>)),
                          (''peerId'', JStr (cid \<lparr>cid = ''a'', tier = Some (Fin 1), tankName = Some ''X'', roomId = None\<rparr>))]),
                (1, hostStartMsg),
                (2, infoMsg waitingForHost)]"
    by (elim exE conjE)
  then have "\<exists>s'. onMessage bi lobbyState 2 (Some ?m) ''r1'' = Inr s'
           \<and> rooms s' ''r1'' = Some \<lparr>hostWs = 1, clientWs = 2, roomTier = Fin 1\<rparr>
           \<and> sent s' =
               [(1, JObj [(''type'', JStr ''matched''), (''roomId'', JStr ''r1''),
                          (''hostId'', JStr ''a''), (''peerId'', JStr ''b'')]),
                (2, JObj [(''type'', JStr ''matched''), (''roomId'', JStr ''r1''),
                          (''hostId'', JStr ''a''), (''peerId'', JStr ''a'')]),
                (1, hostStartMsg),
                (2, infoMsg waitingForHost)]"
    by (intro exI [of _ s']) (simp add: e)
  with c1 c2 w o
  show "clients lobbyState 2 = Some \<lparr>cid = ''b'', tier = None, tankName = None, roomId = None\<rparr>
     \<and> clients lobbyState 1
         = Some \<lparr>cid = ''a'', tier = Some (Fin 1), tankName = Some ''X'', roomId = None\<rparr>
     \<and> waitingByTier lobbyState (Fin 1) = Some 1
     \<and> 1 \<in> readyOpen lobbyState \<and> 2 \<in> readyOpen lobbyState
     \<and> (\<exists>s'. onMessage bi lobbyState 2 (Some ?m) ''r1'' = Inr s'
           \<and> rooms s' ''r1'' = Some \<lparr>hostWs = 1, clientWs = 2, roomTier = Fin 1\<rparr>
           \<and> sent s' =
               [(1, JObj [(''type'', JStr ''matched''), (''roomId'', JStr ''r1''),
                          (''hostId'', JStr ''a''), (''peerId'', JStr ''b'')]),
                (2, JObj [(''type'', JStr ''matched''), (''roomId'', JStr ''r1''),
                          (''hostId'', JStr ''a''), (''peerId'', JStr ''a'')]),
                (1, hostStartMsg),
                (2, infoMsg waitingForHost)])"
    by blast
qed

text \<open>
  Counterexample to claim C1 as stated, which asks for the client's own identity in the \<^verbatim>\<open>peerId\<close> of the
  client's notice. In the end-to-end scenario the client (identity \<^verbatim>\<open>b\<close>) is sent
  \<^verbatim>\<open>peerId: "a"\<close>, the identity of the host.
\<close>

theorem client_notice_counterexample:
  "\<forall>bi. \<exists>s'. run bi initial
             [Connection 1 ''a'', Message 1 (Some (joinMsg (Fin 1) ''X'')) ''u1'',
              Connection 2 ''b'', Message 2 (Some (joinMsg (Fin 1) ''Y'')) ''r1''] = Inr s'
        \<and> sent s' =
            [(1, JObj [(''type'', JStr ''welcome''), (''id'', JStr ''a'')]),
             (1, infoMsg ''Searching for opponent (same tier)...''),
             (2, JObj [(''type'', JStr ''welcome''), (''id'', JStr ''b'')]),
             (1, matchedMsg ''r1'' ''a'' ''b''),
             (2, matchedMsg ''r1'' ''a'' ''a''),
             (1, hostStartMsg),
             (2, infoMsg waitingForHost)]
        \<and> field (matchedMsg ''r1'' ''a'' ''a'') ''peerId'' = Some (JStr ''a'')
        \<and> (2, matchedMsg ''r1'' ''a'' ''b'') \<notin> set (sent s')"
  by (simp add: eval_defs insert_commute matchedMsg_def infoMsg_def hostStartMsg_def)

text \<open>
  Claim C4, amended. For a \<^verbatim>\<open>join\<close> from a registered connection: when the supplied
  tier and name are absent or primitive the listener returns; whenever it returns, the
  messages it sent are among the four notices of the branch (none reports an error), and
  the recorded tier is 1 when the tier is absent or falsy, the supplied number when that
  is truthy, 1 for \<^verbatim>\<open>true\<close>, \<^verbatim>\<open>Number\<close> of a non-empty string, and \<^verbatim>\<open>NaN\<close> for an
  object; the recorded name is \<^verbatim>\<open>Tank\<close> when the name is absent or falsy, the supplied
  string when that is not empty, and \<^verbatim>\<open>[object Object]\<close> for an object.
\<close>

theorem join_coercion:
  assumes "clients s w = Some c" and "field msg ''type'' = Some (JStr ''join'')"
  shows "((\<forall>v. field msg ''tier'' = Some v \<longrightarrow> primitive v)
          \<and> (\<forall>v. field msg ''tankName'' = Some v \<longrightarrow> primitive v)
          \<longrightarrow> (\<exists>s'. onMessage bi s w (Some msg) u = Inr s'))
       \<and> (\<forall>s'. onMessage bi s w (Some msg) u = Inr s' \<longrightarrow>
            (\<exists>c'. clients s' w = Some c'
               \<and> (\<forall>(x, m) \<in> set (drop (length (sent s)) (sent s')). joinNotice m)
               \<and> (field msg ''tier'' = None \<or> (\<exists>v. field msg ''tier'' = Some v \<and> \<not> truthy v)
                    \<longrightarrow> tier c' = Some (Fin 1))
               \<and> (\<forall>x. field msg ''tier'' = Some (JNum x) \<and> truthy (JNum x) \<longrightarrow> tier c' = Some x)
               \<and> (field msg ''tier'' = Some (JBool True) \<longrightarrow> tier c' = Some (Fin 1))
               \<and> (\<forall>x. field msg ''tier'' = Some (JStr x) \<and> x \<noteq> []
                      \<longrightarrow> tier c' = Some (StringToNumber bi x))
               \<and> (\<forall>kvs. field msg ''tier'' = Some (JObj kvs) \<longrightarrow> tier c' = Some NaN)
               \<and> (field msg ''tankName'' = None
                    \<or> (\<exists>v. field msg ''tankName'' = Some v \<and> \<not> truthy v)
                    \<longrightarrow> tankName c' = Some ''Tank'')
               \<and> (\<forall>x. field msg ''tankName'' = Some (JStr x) \<and> x \<noteq> []
                      \<longrightarrow> tankName c' = Some x)
               \<and> (\<forall>kvs. field msg ''tankName'' = Some (JObj kvs)
                      \<longrightarrow> tankName c' = Some ''[object Object]'')))"
proof (intro conjI allI impI)
  assume "(\<forall>v. field msg ''tier'' = Some v \<longrightarrow> primitive v)
          \<and> (\<forall>v. field msg ''tankName'' = Some v \<longrightarrow> primitive v)"
  then have "primitive (orElse (field msg ''tier'') (JNum (Fin 1)))"
    and "primitive (orElse (field msg ''tankName'') (JStr ''Tank''))"
    by (simp_all add: primitive_orElse)
  then obtain t n where "ToNumber bi (orElse (field msg ''tier'') (JNum (Fin 1))) = Inr t"
    and "ToString bi (orElse (field msg ''tankName'') (JStr ''Tank'')) = Inr n"
    using primitive_converts by blast
  from join_records [OF assms this]
  show "\<exists>s'. onMessage bi s w (Some msg) u = Inr s'" by blast
next
  fix s'
  assume r: "onMessage bi s w (Some msg) u = Inr s'"
  from join_returns [OF assms r]
  obtain t n where t: "ToNumber bi (orElse (field msg ''tier'') (JNum (Fin 1))) = Inr t"
    and n: "ToString bi (orElse (field msg ''tankName'') (JStr ''Tank'')) = Inr n"
    by blast
  from join_records [OF assms t n, of u] r
  obtain c' where c': "clients s' w = Some c'" "tier c' = Some t" "tankName c' = Some n"
    "\<forall>(x, m) \<in> set (drop (length (sent s)) (sent s')). joinNotice m"
    by auto
  have 1: "field msg ''tier'' = None \<or> (\<exists>v. field msg ''tier'' = Some v \<and> \<not> truthy v)
                    \<longrightarrow> tier c' = Some (Fin 1)"
    using t c'(2) by (auto simp add: orElse_def)
  have 2: "\<forall>x. field msg ''tier'' = Some (JNum x) \<and> truthy (JNum x) \<longrightarrow> tier c' = Some x"
    using t c'(2) by (auto simp add: orElse_def)
  have 3: "field msg ''tier'' = Some (JBool True) \<longrightarrow> tier c' = Some (Fin 1)"
    using t c'(2) by (auto simp add: orElse_def)
  have 4: "\<forall>x. field msg ''tier'' = Some (JStr x) \<and> x \<noteq> []
                      \<longrightarrow> tier c' = Some (StringToNumber bi x)"
    using t c'(2) by (auto simp add: orElse_def)
  have 5: "\<forall>kvs. field msg ''tier'' = Some (JObj kvs) \<longrightarrow> tier c' = Some NaN"
    using t c'(2) by (auto simp add: orElse_def split: if_splits)
  have 6: "field msg ''tankName'' = None
                    \<or> (\<exists>v. field msg ''tankName'' = Some v \<and> \<not> truthy v)
                    \<longrightarrow> tankName c' = Some ''Tank''"
    using n c'(3) by (auto simp add: orElse_def)
  have 7: "\<forall>x. field msg ''tankName'' = Some (JStr x) \<and> x \<noteq> []
                      \<longrightarrow> tankName c' = Some x"
    using n c'(3) by (auto simp add: orElse_def)
  have 8: "\<forall>kvs. field msg ''tankName'' = Some (JObj kvs)
                      \<longrightarrow> tankName c' = Some ''[object Object]''"
    using n c'(3) by (auto simp add: orElse_def split: if_splits)
  from c'(1) c'(4) 1 2 3 4 5 6 7 8
  show "\<exists>c'. clients s' w = Some c'
               \<and> (\<forall>(x, m) \<in> set (drop (length (sent s)) (sent s')). joinNotice m)
               \<and> (field msg ''tier'' = None \<or> (\<exists>v. field msg ''tier'' = Some v \<and> \<not> truthy v)
                    \<longrightarrow> tier c' = Some (Fin 1))
               \<and> (\<forall>x. field msg ''tier'' = Some (JNum x) \<and> truthy (JNum x) \<longrightarrow> tier c' = Some x)
               \<and> (field msg ''tier'' = Some (JBool True) \<longrightarrow> tier c' = Some (Fin 1))
               \<and> (\<forall>x. field msg ''tier'' = Some (JStr x) \<and> x \<noteq> []
                      \<longrightarrow> tier c' = Some (StringToNumber bi x))
               \<and> (\<forall>kvs. field msg ''tier'' = Some (JObj kvs) \<longrightarrow> tier c' = Some NaN)
               \<and> (field msg ''tankName'' = None
                    \<or> (\<exists>v. field msg ''tankName'' = Some v \<and> \<not> truthy v)
                    \<longrightarrow> tankName c' = Some ''Tank'')
               \<and> (\<forall>x. field msg ''tankName'' = Some (JStr x) \<and> x \<noteq> []
                      \<longrightarrow> tankName c' = Some x)
               \<and> (\<forall>kvs. field msg ''tankName'' = Some (JObj kvs)
                      \<longrightarrow> tankName c' = Some ''[object Object]'')"
    by blast
qed

theorem join_coercion_witness:
  "\<forall>bi. clients freshState 1 = Some \<lparr>cid = ''a'', tier = None, tankName = None, roomId = None\<rparr>
     \<and> field (JObj [(''type'', JStr ''join''), (''tier'', JNum (Fin 0))]) ''type'' = Some (JStr ''join'')
     \<and> (\<exists>s' c'. onMessage bi freshState 1
                   (Some (JObj [(''type'', JStr ''join''), (''tier'', JNum (Fin 0))])) ''u'' = Inr s'
           \<and> clients s' 1 = Some c' \<and> tier c' = Some (Fin 1) \<and> tankName c' = Some ''Tank'')"
proof (intro allI)
  fix bi
  let ?m = "JObj [(''type'', JStr ''join''), (''tier'', JNum (Fin 0))]"
  have c1: "clients freshState 1 = Some \<lparr>cid = ''a'', tier = None, tankName = None, roomId = None\<rparr>"
    by (simp add: freshState_def)
  have j: "field ?m ''type'' = Some (JStr ''join'')" by simp
  have ft: "field ?m ''tier'' = Some (JNum (Fin 0))" and fn: "field ?m ''tankName'' = None"
    by simp_all
  note th = join_coercion [OF c1 j, of bi "''u''"]
  have p: "(\<forall>v. field ?m ''tier'' = Some v \<longrightarrow> primitive v)
          \<and> (\<forall>v. field ?m ''tankName'' = Some v \<longrightarrow> primitive v)"
    by simp
  from th [THEN conjunct1, rule_format, OF p]
  obtain s' where s': "onMessage bi freshState 1 (Some ?m) ''u'' = Inr s'" ..
  from th [THEN conjunct2, rule_format, OF s']
  obtain c' where c': "clients s' 1 = Some c'"
    and d1: "field ?m ''tier'' = None \<or> (\<exists>v. field ?m ''tier'' = Some v \<and> \<not> truthy v)
           \<longrightarrow> tier c' = Some (Fin 1)"
    and d2: "field ?m ''tankName'' = None \<or> (\<exists>v. field ?m ''tankName'' = Some v \<and> \<not> truthy v)
           \<longrightarrow> tankName c' = Some ''Tank''"
    by (elim exE conjE)
  from d1 d2 c' have "clients s' 1 = Some c' \<and> tier c' = Some (Fin 1) \<and> tankName c' = Some ''Tank''"
    by simp
  with c1 j s' show "clients freshState 1 = Some \<lparr>cid = ''a'', tier = None, tankName = None, roomId = None\<rparr>
     \<and> field ?m ''type'' = Some (JStr ''join'')
     \<and> (\<exists>s' c'. onMessage bi freshState 1 (Some ?m) ''u'' = Inr s'
           \<and> clients s' 1 = Some c' \<and> tier c' = Some (Fin 1) \<and> tankName c' = Some ''Tank'')"
    by blast
qed

text \<open>
  Counterexample to claim C4 as stated, which defaults every unusable tier to 1 and every malformed name to
  \<^verbatim>\<open>Tank\<close>. The message \<^verbatim>\<open>{"type":"join","tier":{},"tankName":{}}\<close> records the tier
  \<^verbatim>\<open>NaN\<close> and the name \<^verbatim>\<open>[object Object]\<close>.
\<close>

theorem tier_default_counterexample:
  "\<forall>bi. \<exists>s'. onMessage bi freshState 1
             (Some (JObj [(''type'', JStr ''join''), (''tier'', JObj []), (''tankName'', JObj [])]))
             ''u'' = Inr s'
        \<and> map_option tier (clients s' 1) = Some (Some NaN)
        \<and> map_option tankName (clients s' 1) = Some (Some ''[object Object]'')
        \<and> sent s' = [(1, infoMsg ''Searching for opponent (same tier)...'')]"
  by (simp add: eval_defs freshState_def)


section \<open>Joining twice\<close>

text \<open>
  Claim C2 does not hold of the code. After the end-to-end scenario connection 2 is
  matched in room \<^verbatim>\<open>r1\<close>. Its next \<^verbatim>\<open>join\<close>, for tier 2, makes it the waiter of tier 2
  while \<^verbatim>\<open>r1\<close> still lists it; when connection 3 joins tier 2, connection 2 is paired
  into a second room \<^verbatim>\<open>r2\<close> as its host, and \<^verbatim>\<open>r1\<close> stays in the table.
\<close>

theorem rejoin_while_matched:
  "\<forall>bi. \<exists>s s' s''.
       run bi initial
         [Connection 1 ''a'', Message 1 (Some (joinMsg (Fin 1) ''X'')) ''u1'',
          Connection 2 ''b'', Message 2 (Some (joinMsg (Fin 1) ''Y'')) ''r1''] = Inr s
     \<and> map_option roomId (clients s 2) = Some (Some ''r1'')
     \<and> rooms s ''r1'' = Some \<lparr>hostWs = 1, clientWs = 2, roomTier = Fin 1\<rparr>
     \<and> onMessage bi s 2 (Some (joinMsg (Fin 2) ''Y'')) ''u2'' = Inr s'
     \<and> waitingByTier s' (Fin 2) = Some 2
     \<and> rooms s' ''r1'' = Some \<lparr>hostWs = 1, clientWs = 2, roomTier = Fin 1\<rparr>
     \<and> run bi s' [Connection 3 ''c'', Message 3 (Some (joinMsg (Fin 2) ''Z'')) ''r2''] = Inr s''
     \<and> rooms s'' ''r1'' = Some \<lparr>hostWs = 1, clientWs = 2, roomTier = Fin 1\<rparr>
     \<and> rooms s'' ''r2'' = Some \<lparr>hostWs = 2, clientWs = 3, roomTier = Fin 2\<rparr>
     \<and> map_option roomId (clients s'' 2) = Some (Some ''r2'')"
  by (simp add: eval_defs insert_commute)

text \<open>
  Claim C3 does not hold of the code. Connection 1 joins tier 1 and then tier 2: it is
  recorded as the waiter of both. When connection 2 joins tier 1 and connection 3 joins
  tier 2, connection 1 is the host of two existing rooms.
\<close>

theorem stale_waiting_entry:
  "\<forall>bi. \<exists>s s'.
       run bi initial
         [Connection 1 ''a'', Message 1 (Some (joinMsg (Fin 1) ''X'')) ''u1'',
          Message 1 (Some (joinMsg (Fin 2) ''X'')) ''u2''] = Inr s
     \<and> waitingByTier s (Fin 1) = Some 1
     \<and> waitingByTier s (Fin 2) = Some 1
     \<and> run bi s
         [Connection 2 ''b'', Message 2 (Some (joinMsg (Fin 1) ''Y'')) ''r1'',
          Connection 3 ''c'', Message 3 (Some (joinMsg (Fin 2) ''Z'')) ''r2''] = Inr s'
     \<and> rooms s' ''r1'' = Some \<lparr>hostWs = 1, clientWs = 2, roomTier = Fin 1\<rparr>
     \<and> rooms s' ''r2'' = Some \<lparr>hostWs = 1, clientWs = 3, roomTier = Fin 2\<rparr>
     \<and> map_option roomId (clients s' 1) = Some (Some ''r2'')"
  by (simp add: eval_defs insert_commute)

end
